theory Spec2Isabelle
  imports Complex_Main
begin

section \<open>Shared values of toReel.py\<close>

text \<open>
  Python floats are modelled as the real numbers: the claims below are about the control
  flow and the arithmetic identities of the planner and the tracker, not about rounding.
  Python's unbounded integers are \<open>int\<close>.
\<close>

definition CONFIDENCE_MARGIN :: real where
  "CONFIDENCE_MARGIN = 15 / 100"

definition DEFAULT_CENTER :: real where
  "DEFAULT_CENTER = 1 / 2"

definition ASPECT_RATIO :: real where
  "ASPECT_RATIO = 9 / 16"

datatype error = TypeError | ZeroDivisionError | IndexError

text \<open>Python's \<open>int(x)\<close> on a float truncates towards zero.\<close>

definition py_int :: "real \<Rightarrow> int" where
  "py_int r = (if 0 \<le> r then \<lfloor>r\<rfloor> else \<lceil>r\<rceil>)"

text \<open>
  A cluster is the tuple \<open>(cluster_id, avg_x, avg_y, max_confidence)\<close> that
  \<open>cluster_people\<close> returns.
\<close>

type_synonym cluster = "int \<times> real \<times> real \<times> real"

section \<open>PersonTracker\<close>

record new_target =
  nt_id :: "int option"
  nt_confidence :: "real option"
  nt_frames :: int

record tracker =
  current_id :: "int option"
  current_confidence :: "real option"
  position :: "real \<times> real"
  lost_frames :: int
  lock_countdown :: int
  new_target :: new_target
  wait_frames :: int
  lock_frames :: int

text \<open>The status strings that \<open>update\<close> and \<open>handle_no_detection\<close> return, one tag each.\<close>

datatype status =
    SceneChangeReset
  | Initializing int
  | MovedTooFar int
  | Following int
  | NotStrongEnough int
  | InLock int
  | CandidateStarted int
  | Switched int
  | Buffering int int
  | Holding int
  | NoDetectionReset

definition cleared_target :: new_target where
  "cleared_target = \<lparr>nt_id = None, nt_confidence = None, nt_frames = 0\<rparr>"

definition init_tracker :: tracker where
  "init_tracker =
     \<lparr>current_id = None, current_confidence = None,
      position = (DEFAULT_CENTER, DEFAULT_CENTER),
      lost_frames = 0, lock_countdown = 0,
      new_target = cleared_target,
      wait_frames = 30, lock_frames = 45\<rparr>"

definition reset :: "tracker \<Rightarrow> tracker" where
  "reset s =
     s\<lparr>current_id := None, current_confidence := None,
       position := (DEFAULT_CENTER, DEFAULT_CENTER),
       lost_frames := 0, lock_countdown := 0,
       new_target := cleared_target\<rparr>"

definition distance :: "real \<Rightarrow> real \<Rightarrow> real \<Rightarrow> real \<Rightarrow> real" where
  "distance x1 y1 x2 y2 = sqrt ((x2 - x1)\<^sup>2 + (y2 - y1)\<^sup>2)"

text \<open>
  \<open>update\<close>, branch by branch in the order of the source. The arithmetic on
  \<open>current_confidence\<close> and on the pending confidence raises a \<open>TypeError\<close> when the
  field is still \<open>None\<close>, and the weighted mean raises \<open>ZeroDivisionError\<close> when the two
  confidences add up to zero.

  The margin test compares the candidate's confidence with the float sum
  \<open>current_confidence + CONFIDENCE_MARGIN\<close>, and this is the one test of \<open>update\<close> that
  the rounding of a sum can flip: in binary64, \<open>0.8 + 0.15\<close> is \<open>0.9500000000000001\<close>, so
  a candidate at \<open>0.95\<close> is below it. The sum is therefore taken through the parameter
  \<open>fadd\<close>, the addition as the machine performs it, and every statement about \<open>update\<close>
  below holds for every \<open>fadd\<close>. The other arithmetic is over the reals.
\<close>

fun update :: "(real \<Rightarrow> real \<Rightarrow> real) \<Rightarrow> tracker \<Rightarrow> cluster \<Rightarrow> real \<Rightarrow> real \<Rightarrow> real
    \<Rightarrow> error + (tracker \<times> status)" where
  "update fadd s (cid, cx, cy, conf) frame_diff scene_change_threshold movement_threshold =
    (if frame_diff > scene_change_threshold then Inr (reset s, SceneChangeReset)
     else
       let s1 = s\<lparr>lost_frames := lost_frames s + 1\<rparr> in
       case current_id s1 of
         None \<Rightarrow>
           Inr (s1\<lparr>current_id := Some cid, current_confidence := Some conf,
                   position := (cx, cy)\<rparr>, Initializing cid)
       | Some cur \<Rightarrow>
           if distance (fst (position s1)) (snd (position s1)) cx cy > movement_threshold
           then Inr (s1\<lparr>current_id := Some cid, current_confidence := Some conf,
                        position := (cx, cy)\<rparr>, MovedTooFar cid)
           else if cid = cur
           then Inr (s1\<lparr>position := (cx, cy), current_confidence := Some conf,
                        new_target := (new_target s1)\<lparr>nt_id := None, nt_frames := 0\<rparr>\<rparr>,
                     Following cur)
           else
             case current_confidence s1 of
               None \<Rightarrow> Inl TypeError
             | Some cc \<Rightarrow>
                 if conf < fadd cc CONFIDENCE_MARGIN
                 then Inr (s1\<lparr>position := (cx, cy),
                              new_target := (new_target s1)\<lparr>nt_id := None, nt_frames := 0\<rparr>\<rparr>,
                           NotStrongEnough cur)
                 else if lock_countdown s1 > 0
                 then Inr (s1\<lparr>position := (cx, cy)\<rparr>, InLock cur)
                 else if nt_id (new_target s1) = None \<or> nt_id (new_target s1) \<noteq> Some cid
                 then Inr (s1\<lparr>new_target :=
                                \<lparr>nt_id = Some cid, nt_confidence = Some conf, nt_frames = 1\<rparr>\<rparr>,
                           CandidateStarted cid)
                 else
                   case nt_confidence (new_target s1) of
                     None \<Rightarrow> Inl TypeError
                   | Some nc \<Rightarrow>
                       if nc + cc = 0 then Inl ZeroDivisionError
                       else
                         let new_x = (nc * cx + cc * fst (position s1)) / (nc + cc);
                             new_y = (nc * cy + cc * snd (position s1)) / (nc + cc);
                             frames = nt_frames (new_target s1) + 1;
                             s2 = s1\<lparr>position := (new_x, new_y),
                                     new_target := (new_target s1)\<lparr>nt_frames := frames\<rparr>\<rparr>
                         in
                           if frames \<ge> wait_frames s2
                           then
                             let blended_x = nc * cx + (1 - nc) * new_x;
                                 blended_y = nc * cy + (1 - nc) * new_y
                             in Inr (s2\<lparr>current_id := Some cid,
                                        current_confidence := Some nc,
                                        position := (blended_x, blended_y),
                                        lock_countdown := lock_frames s2,
                                        new_target := (new_target s2)\<lparr>nt_id := None, nt_frames := 0\<rparr>\<rparr>,
                                     Switched cid)
                           else Inr (s2, Buffering cid frames))"

definition handle_no_detection :: "tracker \<Rightarrow> real \<Rightarrow> real \<Rightarrow> tracker \<times> status" where
  "handle_no_detection s frame_diff scene_change_threshold =
    (if frame_diff > scene_change_threshold then (reset s, SceneChangeReset)
     else
       let s1 = s\<lparr>lost_frames := lost_frames s + 1\<rparr> in
       if lost_frames s1 < wait_frames s1 then (s1, Holding (lost_frames s1))
       else (reset s1, NoDetectionReset))"

text \<open>
  The tracker step of \<open>process_frame\<close>: no cluster goes to \<open>handle_no_detection\<close>, the
  best cluster goes to \<open>update\<close>, with the scene-change threshold 3000 and the movement
  threshold 30 that \<open>process_frame\<close> passes. An input is the best cluster of the frame, if
  any, and the frame difference.
\<close>

definition max_movement :: real where
  "max_movement = 30"

definition tracker_frame :: "(real \<Rightarrow> real \<Rightarrow> real) \<Rightarrow> tracker \<Rightarrow> cluster option \<times> real
    \<Rightarrow> error + (tracker \<times> status)" where
  "tracker_frame fadd s inp =
    (case fst inp of
       None \<Rightarrow> Inr (handle_no_detection s (snd inp) 3000)
     | Some best_cluster \<Rightarrow> update fadd s best_cluster (snd inp) 3000 max_movement)"

text \<open>
  A stream of frames through one tracker, collecting the status of every frame; the first
  exception ends the run.
\<close>

fun tracker_run :: "(real \<Rightarrow> real \<Rightarrow> real) \<Rightarrow> tracker \<Rightarrow> (cluster option \<times> real) list
    \<Rightarrow> error + (tracker \<times> status list)" where
  "tracker_run fadd s [] = Inr (s, [])"
| "tracker_run fadd s (inp # rest) =
    (case tracker_frame fadd s inp of
       Inl e \<Rightarrow> Inl e
     | Inr (s', st) \<Rightarrow>
         (case tracker_run fadd s' rest of
            Inl e \<Rightarrow> Inl e
          | Inr (s'', sts) \<Rightarrow> Inr (s'', st # sts)))"

section \<open>Crop window\<close>

text \<open>
  The crop rectangle, computed the same way in \<open>process_frame\<close> (lines 524 to 531) and in
  the second pass of \<open>process_video\<close> (lines 431 and 449 to 455). Neither place raises.
\<close>

definition crop_width_of :: "int \<Rightarrow> int" where
  "crop_width_of height = py_int (real_of_int height * ASPECT_RATIO)"

definition crop_window :: "real \<Rightarrow> int \<Rightarrow> int \<Rightarrow> int \<times> int" where
  "crop_window norm_center width crop_width =
    (let x_center = py_int (norm_center * real_of_int width);
         x_start0 = x_center - crop_width div 2;
         x_start = (if x_start0 < 0 then 0
                    else if x_start0 + crop_width > width then width - crop_width
                    else x_start0);
         x_end = x_start + crop_width
     in (x_start, x_end))"

section \<open>cluster\_people\<close>

text \<open>
  A detection is \<open>(id, kp)\<close> with \<open>kp = (y, x, confidence, ...)\<close>; only the first three
  entries of \<open>kp\<close> are read. An accumulator is the dictionary with the keys \<open>sum_x\<close>,
  \<open>sum_y\<close>, \<open>count\<close> and \<open>max_conf\<close>. Every accumulator is created with count 1 and the
  count only grows, so the divisions by \<open>count\<close> never divide by zero.
\<close>

type_synonym keypoint = "real \<times> real \<times> real"

type_synonym detection = "int \<times> keypoint"

record accumulator =
  sum_x :: real
  sum_y :: real
  count :: int
  max_conf :: real

text \<open>
  The inner loop over the clusters: the first cluster whose centre is nearer than the
  threshold takes the detection and the loop breaks; \<open>None\<close> is \<open>added = False\<close>.
\<close>

fun merge_into :: "real \<Rightarrow> keypoint \<Rightarrow> accumulator list \<Rightarrow> accumulator list option" where
  "merge_into threshold kp [] = None"
| "merge_into threshold (y_pos, x_pos, confidence) (cl # rest) =
    (let center_x = sum_x cl / real_of_int (count cl);
         center_y = sum_y cl / real_of_int (count cl);
         dist = sqrt ((x_pos - center_x)\<^sup>2 + (y_pos - center_y)\<^sup>2)
     in if dist < threshold
        then Some (cl\<lparr>sum_x := sum_x cl + x_pos, sum_y := sum_y cl + y_pos,
                      count := count cl + 1,
                      max_conf := (if confidence > max_conf cl then confidence else max_conf cl)\<rparr>
                   # rest)
        else (case merge_into threshold (y_pos, x_pos, confidence) rest of
                None \<Rightarrow> None
              | Some rest' \<Rightarrow> Some (cl # rest')))"

fun cluster_loop :: "real \<Rightarrow> accumulator list \<Rightarrow> detection list \<Rightarrow> accumulator list" where
  "cluster_loop threshold clusters [] = clusters"
| "cluster_loop threshold clusters ((person_id, y_pos, x_pos, confidence) # people) =
    cluster_loop threshold
      (case merge_into threshold (y_pos, x_pos, confidence) clusters of
         Some clusters' \<Rightarrow> clusters'
       | None \<Rightarrow> clusters @ [\<lparr>sum_x = x_pos, sum_y = y_pos, count = 1, max_conf = confidence\<rparr>])
      people"

definition merged_person :: "nat \<times> accumulator \<Rightarrow> cluster" where
  "merged_person ic =
     (int (fst ic), sum_x (snd ic) / real_of_int (count (snd ic)),
      sum_y (snd ic) / real_of_int (count (snd ic)), max_conf (snd ic))"

definition cluster_people :: "detection list \<Rightarrow> real \<Rightarrow> cluster list" where
  "cluster_people people threshold =
     map merged_person (enumerate 0 (cluster_loop threshold [] people))"

text \<open>
  The grouping that \<open>cluster_people\<close> is compared with: every detection joins the first
  group, in creation order, whose mean position is nearer than the threshold, and starts a
  new group when there is none; a group is reported by the mean of its members' positions
  and the largest of their confidences.
\<close>

definition mean :: "real list \<Rightarrow> real" where
  "mean xs = sum_list xs / real (length xs)"

definition kp_x :: "keypoint \<Rightarrow> real" where
  "kp_x kp = fst (snd kp)"

definition kp_y :: "keypoint \<Rightarrow> real" where
  "kp_y kp = fst kp"

definition kp_conf :: "keypoint \<Rightarrow> real" where
  "kp_conf kp = snd (snd kp)"

definition group_near :: "real \<Rightarrow> keypoint \<Rightarrow> keypoint list \<Rightarrow> bool" where
  "group_near threshold kp g =
     (sqrt ((kp_x kp - mean (map kp_x g))\<^sup>2 + (kp_y kp - mean (map kp_y g))\<^sup>2) < threshold)"

fun first_fit :: "real \<Rightarrow> keypoint list list \<Rightarrow> keypoint \<Rightarrow> keypoint list list" where
  "first_fit threshold [] kp = [[kp]]"
| "first_fit threshold (g # gs) kp =
    (if group_near threshold kp g then (g @ [kp]) # gs else g # first_fit threshold gs kp)"

definition first_fit_groups :: "real \<Rightarrow> detection list \<Rightarrow> keypoint list list" where
  "first_fit_groups threshold people = foldl (first_fit threshold) [] (map snd people)"

definition group_cluster :: "nat \<times> keypoint list \<Rightarrow> cluster" where
  "group_cluster ig =
     (int (fst ig), mean (map kp_x (snd ig)), mean (map kp_y (snd ig)),
      Max (set (map kp_conf (snd ig))))"

text \<open>
  The accumulator that stands for a group: the sums of its members' coordinates, their
  number and the largest of their confidences.
\<close>

definition acc_of :: "keypoint list \<Rightarrow> accumulator" where
  "acc_of g = \<lparr>sum_x = sum_list (map kp_x g), sum_y = sum_list (map kp_y g),
               count = int (length g), max_conf = Max (set (map kp_conf g))\<rparr>"

section \<open>MovementPlanner\<close>

type_synonym frame_record = "int \<times> real \<times> bool"

record planner =
  frame_data :: "frame_record list"
  fps :: real
  current_scene_start :: int
  waiting_for_detection :: bool
  default_x :: real
  smoothing_rate :: real
  max_movement_per_frame :: real
  position_history :: "real list"
  history_size :: int
  centering_weight :: real
  fast_transition_threshold :: real
  in_transition :: bool
  stable_frames :: int
  stable_frames_required :: int
  is_centering :: bool

definition init_planner :: "real \<Rightarrow> planner" where
  "init_planner fps_in =
     \<lparr>frame_data = [], fps = fps_in, current_scene_start = 0,
      waiting_for_detection = False, default_x = DEFAULT_CENTER,
      smoothing_rate = 5 / 100, max_movement_per_frame = 3 / 100,
      position_history = [], history_size = 3, centering_weight = 4 / 10,
      fast_transition_threshold = 1 / 10, in_transition = False,
      stable_frames = 0, stable_frames_required = py_int (fps_in * (1 / 2)),
      is_centering = False\<rparr>"

text \<open>The rewrite of one record by the loop of lines 149 to 153.\<close>

definition backfill :: "int \<Rightarrow> real \<Rightarrow> frame_record \<Rightarrow> frame_record" where
  "backfill scene_start new_x r =
     (case r of (f_num, x, is_scene) \<Rightarrow>
        if f_num \<ge> scene_start then (if is_scene then r else (f_num, new_x, False)) else r)"

text \<open>Lines 176 to 182: the stability counter.\<close>

definition stability :: "planner \<Rightarrow> real \<Rightarrow> planner" where
  "stability st distance_to_target =
     (if distance_to_target < fast_transition_threshold st
      then let st1 = st\<lparr>stable_frames := stable_frames st + 1\<rparr>
           in (if stable_frames st1 \<ge> stable_frames_required st1
               then st1\<lparr>is_centering := True\<rparr> else st1)
      else st\<lparr>stable_frames := 0, is_centering := False, position_history := []\<rparr>)"

text \<open>Lines 185 to 192: the blend with the recent history, returning the new target.\<close>

definition centering :: "planner \<Rightarrow> real \<Rightarrow> planner \<times> real" where
  "centering st target_x =
     (if is_centering st
      then let h1 = position_history st @ [target_x];
               h2 = (if int (length h1) > history_size st then tl h1 else h1);
               st1 = st\<lparr>position_history := h2\<rparr>
           in if length h2 > 1
              then let avg_pos = sum_list h2 / real (length h2)
                   in (st1, target_x * (1 - centering_weight st1) + avg_pos * centering_weight st1)
              else (st1, target_x)
      else (st, target_x))"

definition plan_movement :: "planner \<Rightarrow> int \<Rightarrow> cluster option \<Rightarrow> real \<Rightarrow> real \<Rightarrow> planner" where
  "plan_movement st frame_num cluster frame_diff scene_change_threshold =
    (if frame_diff > scene_change_threshold
     then st\<lparr>position_history := [], in_transition := False, stable_frames := 0,
             is_centering := False,
             frame_data := frame_data st @ [(frame_num, default_x st, True)],
             current_scene_start := frame_num, waiting_for_detection := True\<rparr>
     else if waiting_for_detection st \<and> cluster \<noteq> None
     then (case cluster of
             None \<Rightarrow> st
           | Some (cid, new_x, cy, conf) \<Rightarrow>
               st\<lparr>frame_data := map (backfill (current_scene_start st) new_x) (frame_data st),
                  waiting_for_detection := False\<rparr>)
     else
       let target_x =
             (case cluster of
                Some (cid, cx, cy, conf) \<Rightarrow> cx
              | None \<Rightarrow> (if frame_data st = [] then default_x st
                         else fst (snd (last (frame_data st)))))
       in if frame_data st \<noteq> []
          then
            let last_x = fst (snd (last (frame_data st)));
                distance_to_target = \<bar>target_x - last_x\<bar>;
                max_move = max_movement_per_frame st;
                movement = target_x - last_x;
                target_x1 = (if \<bar>movement\<bar> > max_move
                             then last_x + (if movement > 0 then max_move else - max_move)
                             else target_x);
                st1 = stability st distance_to_target;
                res = centering st1 target_x1
            in (fst res)\<lparr>frame_data := frame_data (fst res) @ [(frame_num, snd res, False)]\<rparr>
          else st\<lparr>frame_data := frame_data st @ [(frame_num, target_x, False)]\<rparr>)"

type_synonym segment = "int \<times> int \<times> real list"

text \<open>
  The loop of \<open>get_scene_segments\<close>, with the index of \<open>enumerate\<close>, the start of the
  current segment, its positions and the segments so far.
\<close>

fun segments_loop :: "nat \<Rightarrow> int \<Rightarrow> real list \<Rightarrow> segment list \<Rightarrow> frame_record list
    \<Rightarrow> int \<times> real list \<times> segment list" where
  "segments_loop i current_segment_start current_positions segments [] =
     (current_segment_start, current_positions, segments)"
| "segments_loop i current_segment_start current_positions segments ((frame_num, x_pos, is_scene) # rest) =
    (if is_scene \<and> i > 0
     then segments_loop (i + 1) frame_num [x_pos]
            (segments @ [(current_segment_start, frame_num - 1, current_positions)]) rest
     else segments_loop (i + 1) current_segment_start (current_positions @ [x_pos]) segments rest)"

definition get_scene_segments :: "planner \<Rightarrow> segment list" where
  "get_scene_segments st =
    (case segments_loop 0 0 [] [] (frame_data st) of
       (current_segment_start, current_positions, segments) \<Rightarrow>
         if current_positions \<noteq> []
         then segments @ [(current_segment_start, fst (last (frame_data st)), current_positions)]
         else segments)"

text \<open>
  Python's \<open>xs[i] = v\<close>: a negative index counts from the end, an index out of range
  raises \<open>IndexError\<close>.
\<close>

definition py_index :: "nat \<Rightarrow> int \<Rightarrow> int" where
  "py_index n i = (if i < 0 then i + int n else i)"

definition list_assign :: "real list \<Rightarrow> int \<Rightarrow> real \<Rightarrow> error + real list" where
  "list_assign xs i v =
     (let j = py_index (length xs) i
      in if 0 \<le> j \<and> j < int (length xs) then Inr (xs[nat j := v]) else Inl IndexError)"

text \<open>
  The inner loop of \<open>interpolate_and_smooth\<close> over \<open>enumerate(range(start_frame,
  end_frame + 1))\<close>: the index, the frames left, \<open>last_x\<close> and the centers so far.
\<close>

fun smooth_loop :: "real \<Rightarrow> real \<Rightarrow> real list \<Rightarrow> nat \<Rightarrow> int list \<Rightarrow> real \<Rightarrow> real list
    \<Rightarrow> error + real list" where
  "smooth_loop base_alpha delta_threshold positions i [] last_x smoothed_centers =
     Inr smoothed_centers"
| "smooth_loop base_alpha delta_threshold positions i (frame # frames) last_x smoothed_centers =
    (if i \<ge> length positions then Inr smoothed_centers
     else
       let target_x = positions ! i;
           delta = target_x - last_x;
           smoothed_x =
             (if \<bar>delta\<bar> < delta_threshold then last_x
              else
                let distance_factor = min (\<bar>delta\<bar> * 2) 1;
                    deceleration_alpha0 = base_alpha * distance_factor;
                    deceleration_alpha =
                      (if \<bar>delta\<bar> < 1 / 10 then deceleration_alpha0 * (1 / 2)
                       else deceleration_alpha0)
                in last_x + deceleration_alpha * delta)
       in case list_assign smoothed_centers frame smoothed_x of
            Inl e \<Rightarrow> Inl e
          | Inr smoothed_centers' \<Rightarrow>
              smooth_loop base_alpha delta_threshold positions (i + 1) frames smoothed_x
                smoothed_centers')"

fun smooth_segments :: "real \<Rightarrow> real \<Rightarrow> segment list \<Rightarrow> real list \<Rightarrow> error + real list" where
  "smooth_segments base_alpha delta_threshold [] smoothed_centers = Inr smoothed_centers"
| "smooth_segments base_alpha delta_threshold ((start_frame, end_frame, positions) # segments)
     smoothed_centers =
    (case positions of
       [] \<Rightarrow> Inl IndexError
     | p0 # ps \<Rightarrow>
         (case smooth_loop base_alpha delta_threshold positions 0 [start_frame..end_frame] p0
                 smoothed_centers of
            Inl e \<Rightarrow> Inl e
          | Inr smoothed_centers' \<Rightarrow>
              smooth_segments base_alpha delta_threshold segments smoothed_centers'))"

definition interpolate_and_smooth :: "planner \<Rightarrow> int \<Rightarrow> real \<Rightarrow> real \<Rightarrow> error + real list" where
  "interpolate_and_smooth st total_frames base_alpha delta_threshold =
     smooth_segments base_alpha delta_threshold (get_scene_segments st)
       (replicate (nat total_frames) (default_x st))"

text \<open>
  The first pass of \<open>process_video\<close>: one call of \<open>plan_movement\<close> per frame read, with
  the frame counter and the scene-change threshold 3000; then the smoothing with its
  default \<open>base_alpha = 0.1\<close> and \<open>delta_threshold = 0.015\<close>.
\<close>

fun first_pass :: "planner \<Rightarrow> int \<Rightarrow> (cluster option \<times> real) list \<Rightarrow> planner" where
  "first_pass st frame_count [] = st"
| "first_pass st frame_count ((best_cluster, frame_diff) # rest) =
     first_pass (plan_movement st frame_count best_cluster frame_diff 3000) (frame_count + 1) rest"

definition planned_centers :: "real \<Rightarrow> (cluster option \<times> real) list \<Rightarrow> int \<Rightarrow> error + real list" where
  "planned_centers fps_in inputs total_frames =
     interpolate_and_smooth (first_pass (init_planner fps_in) 0 inputs) total_frames
       (1 / 10) (15 / 1000)"

text \<open>The frames that the inner loop assigns for one segment.\<close>

definition written_frames :: "segment \<Rightarrow> int list" where
  "written_frames seg =
     (case seg of (start_frame, end_frame, positions) \<Rightarrow>
        take (length positions) [start_frame..end_frame])"

section \<open>Predicates used in the statements about the tracker\<close>




section \<open>The displacement branch\<close>

lemma distance_unit_square:
  assumes "0 \<le> x1" "x1 \<le> 1" "0 \<le> y1" "y1 \<le> 1" "0 \<le> x2" "x2 \<le> 1" "0 \<le> y2" "y2 \<le> 1"
  shows "distance x1 y1 x2 y2 \<le> sqrt 2"
proof -
  have a: "\<bar>x2 - x1\<bar> \<le> 1" using assms by (simp add: abs_le_iff)
  have b: "\<bar>y2 - y1\<bar> \<le> 1" using assms by (simp add: abs_le_iff)
  have "(x2 - x1)\<^sup>2 \<le> 1" using a by (simp add: abs_square_le_1)
  moreover have "(y2 - y1)\<^sup>2 \<le> 1" using b by (simp add: abs_square_le_1)
  ultimately have "(x2 - x1)\<^sup>2 + (y2 - y1)\<^sup>2 \<le> 2" by simp
  then show ?thesis unfolding distance_def by (rule real_sqrt_le_mono)
qed

lemma sqrt2_less_30: "sqrt 2 < 30"
proof -
  have "sqrt 2 < sqrt (30\<^sup>2)" by (simp only: real_sqrt_less_iff) simp
  then show ?thesis by simp
qed

lemma distance_below_max_movement:
  assumes "0 \<le> x1" "x1 \<le> 1" "0 \<le> y1" "y1 \<le> 1" "0 \<le> x2" "x2 \<le> 1" "0 \<le> y2" "y2 \<le> 1"
  shows "\<not> distance x1 y1 x2 y2 > max_movement"
  using distance_unit_square [OF assms] sqrt2_less_30 by (simp add: max_movement_def)

text \<open>
  C10. When the tracker position and the candidate both have coordinates in \<open>[0, 1]\<close>, the
  displacement that \<open>update\<close> computes is at most the square root of 2; so with the
  movement threshold 30 of \<open>process_frame\<close> the displacement test fails and \<open>update\<close>
  never returns the status "Person moved too far".
\<close>

theorem update_never_moved_too_far:
  assumes "0 \<le> fst (position s)" "fst (position s) \<le> 1"
    and "0 \<le> snd (position s)" "snd (position s) \<le> 1"
    and "0 \<le> cx" "cx \<le> 1" "0 \<le> cy" "cy \<le> 1"
  shows "distance (fst (position s)) (snd (position s)) cx cy \<le> sqrt 2
       \<and> \<not> distance (fst (position s)) (snd (position s)) cx cy > max_movement
       \<and> (\<forall>s' i. update fadd s (cid, cx, cy, conf) frame_diff thr max_movement \<noteq> Inr (s', MovedTooFar i))"
proof -
  have d: "\<not> distance (fst (position s)) (snd (position s)) cx cy > max_movement"
    using assms by (rule distance_below_max_movement)
  have "update fadd s (cid, cx, cy, conf) frame_diff thr max_movement \<noteq> Inr (s', MovedTooFar i)" for s' i
    using d by (auto simp: Let_def split: option.splits)
  then show ?thesis using d distance_unit_square [OF assms] by blast
qed

text \<open>
  The instance: a tracker that follows person 1 from the corner \<open>(0, 0)\<close>, and person 2 as
  candidate in the opposite corner \<open>(1, 1)\<close>, the largest displacement there is. The
  displacement test is evaluated and fails, and the frame starts a pending candidate.
\<close>

theorem update_never_moved_too_far_witness:
  "0 \<le> fst (position (init_tracker\<lparr>current_id := Some 1, current_confidence := Some (1/2), position := (0, 0)\<rparr>))
   \<and> fst (position (init_tracker\<lparr>current_id := Some 1, current_confidence := Some (1/2), position := (0, 0)\<rparr>)) \<le> 1
   \<and> distance 0 0 1 1 \<le> sqrt 2
   \<and> \<not> distance 0 0 1 1 > max_movement
   \<and> (\<forall>s' i. update (+) (init_tracker\<lparr>current_id := Some 1, current_confidence := Some (1/2), position := (0, 0)\<rparr>)
                (2, 1, 1, 9/10) 0 3000 max_movement \<noteq> Inr (s', MovedTooFar i))
   \<and> update (+) (init_tracker\<lparr>current_id := Some 1, current_confidence := Some (1/2), position := (0, 0)\<rparr>)
        (2, 1, 1, 9/10) 0 3000 max_movement
     = Inr (init_tracker\<lparr>current_id := Some 1, current_confidence := Some (1/2), position := (0, 0),
              lost_frames := 1,
              new_target := \<lparr>nt_id = Some 2, nt_confidence = Some (9/10), nt_frames = 1\<rparr>\<rparr>,
            CandidateStarted 2)"
  using update_never_moved_too_far
    [of "init_tracker\<lparr>current_id := Some 1, current_confidence := Some (1/2), position := (0, 0)\<rparr>"
        1 1 "(+)" 2 "9/10" 0 3000]
  by (simp add: init_tracker_def DEFAULT_CENTER_def CONFIDENCE_MARGIN_def cleared_target_def)

section \<open>The tracker's counters\<close>

lemma distance_same [simp]: "distance x y x y = 0"
  by (simp add: distance_def)

text \<open>
  C2. \<open>update\<close> adds one to \<open>lost_frames\<close> on every frame that has a candidate (line 300)
  and nothing but \<open>reset\<close> sets the counter back. A fresh tracker that sees person 0 at
  \<open>(0.3, 0.3)\<close> on 29 consecutive frames has \<open>lost_frames = 29\<close>; the first frame without a
  candidate then makes it 30, which is not below \<open>wait_frames\<close>, and the tracker is reset to
  the default center: a gap of one frame, not of 30.
\<close>

theorem lost_frames_counts_detections:
  "tracker_run (+) init_tracker (replicate 29 (Some (0, 3/10, 3/10, 9/10), 0))
     = Inr (init_tracker\<lparr>current_id := Some 0, current_confidence := Some (9/10),
              position := (3/10, 3/10), lost_frames := 29\<rparr>,
            Initializing 0 # replicate 28 (Following 0))
   \<and> tracker_frame (+) (init_tracker\<lparr>current_id := Some 0, current_confidence := Some (9/10),
              position := (3/10, 3/10), lost_frames := 29\<rparr>) (None, 0)
     = Inr (init_tracker, NoDetectionReset)"
  by (simp add: eval_nat_numeral tracker_frame_def init_tracker_def max_movement_def
      handle_no_detection_def reset_def cleared_target_def)

text \<open>
  C1. Nothing in \<open>update\<close> or \<open>handle_no_detection\<close> decrements \<open>lock_countdown\<close>: the
  switch sets it to \<open>lock_frames\<close> and only \<open>reset\<close> clears it. The run below initialises
  on person 0, lets person 1 take over after 30 frames (the switch is the 31st status),
  follows person 1 for 45 further frames and then meets person 2, whose confidence is above
  the margin. That frame is the 46th after the switch, and it is still answered
  "In lock", with \<open>lock_countdown\<close> still 45 and no pending candidate started.
\<close>

theorem lock_countdown_never_expires:
  "tracker_run (+) init_tracker
     ((Some (0, 1/2, 1/2, 1/2), 0) # replicate 30 (Some (1, 1/2, 1/2, 9/10), 0)
        @ replicate 45 (Some (1, 1/2, 1/2, 1/2), 0) @ [(Some (2, 1/2, 1/2, 9/10), 0)])
   = Inr (init_tracker\<lparr>current_id := Some 1, current_confidence := Some (1/2),
            lost_frames := 77, lock_countdown := 45,
            new_target := \<lparr>nt_id = None, nt_confidence = Some (9/10), nt_frames = 0\<rparr>\<rparr>,
          Initializing 0 # CandidateStarted 1 # map (Buffering 1) [2..29] @ [Switched 1]
            @ replicate 45 (Following 1) @ [InLock 1])"
  by (simp add: eval_nat_numeral tracker_frame_def init_tracker_def max_movement_def
      handle_no_detection_def reset_def cleared_target_def CONFIDENCE_MARGIN_def DEFAULT_CENTER_def
      upto.simps)

section \<open>The crop window\<close>

lemma py_int_nonneg: "0 \<le> r \<Longrightarrow> 0 \<le> py_int r"
  by (simp add: py_int_def)

text \<open>
  C3, as the code has it. For a center in \<open>[0, 1]\<close>, a source of positive width and height,
  and a crop width (the height times 9/16, truncated) that is not larger than the source
  width, the rectangle lies within \<open>[0, W]\<close> and is exactly as wide as the crop width.
\<close>

theorem crop_window_within_source:
  assumes "0 \<le> c" "c \<le> 1" "0 < W" "0 < H" "crop_width_of H \<le> W"
  shows "case crop_window c W (crop_width_of H) of
           (x_start, x_end) \<Rightarrow> 0 \<le> x_start \<and> x_end \<le> W \<and> x_end - x_start = crop_width_of H"
proof -
  have "0 \<le> crop_width_of H" using assms(4) unfolding crop_width_of_def ASPECT_RATIO_def
    by (intro py_int_nonneg) simp
  then show ?thesis using assms(5) by (simp add: crop_window_def Let_def)
qed

theorem crop_window_within_source_witness:
  "(0::real) \<le> 1/2 \<and> (1/2::real) \<le> 1 \<and> (0::int) < 1920 \<and> (0::int) < 1080
   \<and> crop_width_of 1080 \<le> 1920
   \<and> crop_window (1/2) 1920 (crop_width_of 1080) = (657, 1264)
   \<and> (case crop_window (1/2) 1920 (crop_width_of 1080) of
         (x_start, x_end) \<Rightarrow> 0 \<le> x_start \<and> x_end \<le> 1920 \<and> x_end - x_start = crop_width_of 1080)"
  using crop_window_within_source [of "1/2" 1920 1080]
  by (simp add: crop_window_def crop_width_of_def ASPECT_RATIO_def py_int_def Let_def)

text \<open>
  A source 100 wide and 320 high has the crop width 180. Nothing clamps it: the rectangle
  for the center 0.5 is \<open>[0, 180]\<close>, which is not within \<open>[0, 100]\<close>.
\<close>

theorem crop_window_wider_than_source:
  "crop_width_of 320 = 180
   \<and> crop_window (1/2) 100 (crop_width_of 320) = (0, 180)
   \<and> \<not> (case crop_window (1/2) 100 (crop_width_of 320) of
           (x_start, x_end) \<Rightarrow> 0 \<le> x_start \<and> x_end \<le> 100)"
  by (simp add: crop_window_def crop_width_of_def ASPECT_RATIO_def py_int_def Let_def)

section \<open>The planner's records\<close>

text \<open>
  C8. The branch for a delayed first detection (lines 144 to 156) rewrites earlier records
  and returns without appending one for the present frame. Four frames, with a scene cut at
  frame 1 and the first candidate at frame 2, leave records for the frames 0, 1 and 3 only.
\<close>

theorem delayed_detection_appends_nothing:
  "map fst (frame_data (first_pass (init_planner 30) 0
     [(None, 0), (None, 5000), (Some (0, 9/10, 1/2, 9/10), 0), (Some (0, 9/10, 1/2, 9/10), 0)]))
   = [0, 1, 3]"
  by (simp add: init_planner_def plan_movement_def DEFAULT_CENTER_def py_int_def backfill_def
      stability_def centering_def Let_def)

section \<open>Hysteresis of the tracker\<close>


















section \<open>The first pass\<close>

lemma stability_fields [simp]:
  "frame_data (stability st d) = frame_data st"
  "default_x (stability st d) = default_x st"
  "waiting_for_detection (stability st d) = waiting_for_detection st"
  "current_scene_start (stability st d) = current_scene_start st"
  "max_movement_per_frame (stability st d) = max_movement_per_frame st"
  "history_size (stability st d) = history_size st"
  "centering_weight (stability st d) = centering_weight st"
  by (simp_all add: stability_def Let_def)

lemma centering_fields [simp]:
  "frame_data (fst (centering st t)) = frame_data st"
  "default_x (fst (centering st t)) = default_x st"
  "waiting_for_detection (fst (centering st t)) = waiting_for_detection st"
  "current_scene_start (fst (centering st t)) = current_scene_start st"
  "max_movement_per_frame (fst (centering st t)) = max_movement_per_frame st"
  "history_size (fst (centering st t)) = history_size st"
  "centering_weight (fst (centering st t)) = centering_weight st"
  by (simp_all add: centering_def Let_def)

lemma plan_cut:
  assumes "d > thr"
  shows "frame_data (plan_movement st n c d thr) = frame_data st @ [(n, default_x st, True)]"
    and "current_scene_start (plan_movement st n c d thr) = n"
    and "waiting_for_detection (plan_movement st n c d thr)"
    and "default_x (plan_movement st n c d thr) = default_x st"
  using assms by (simp_all add: plan_movement_def)

lemma plan_backfill:
  assumes "\<not> d > thr" "waiting_for_detection st"
  shows "frame_data (plan_movement st n (Some (cid, x, cy, conf)) d thr)
           = map (backfill (current_scene_start st) x) (frame_data st)"
    and "default_x (plan_movement st n (Some (cid, x, cy, conf)) d thr) = default_x st"
  using assms by (simp_all add: plan_movement_def)

lemma plan_normal:
  assumes "\<not> d > thr" "\<not> (waiting_for_detection st \<and> c \<noteq> None)"
  shows "\<exists>x. frame_data (plan_movement st n c d thr) = frame_data st @ [(n, x, False)]"
    and "current_scene_start (plan_movement st n c d thr) = current_scene_start st"
    and "waiting_for_detection (plan_movement st n c d thr) = waiting_for_detection st"
    and "default_x (plan_movement st n c d thr) = default_x st"
  using assms by (auto simp: plan_movement_def Let_def)

lemma plan_default_x [simp]: "default_x (plan_movement st n c d thr) = default_x st"
  by (cases c) (auto simp: plan_movement_def Let_def)

lemma plan_frame_numbers:
  "set (map fst (frame_data (plan_movement st n c d thr))) \<subseteq> insert n (set (map fst (frame_data st)))"
proof (cases "d > thr")
  case True
  then show ?thesis by (auto simp: plan_cut(1))
next
  case False
  show ?thesis
  proof (cases "waiting_for_detection st \<and> c \<noteq> None")
    case True
    then obtain cid x cy conf where c: "c = Some (cid, x, cy, conf)" by (cases c) auto
    have "fst (backfill k x r) = fst r" for k r by (cases r) (simp add: backfill_def)
    then show ?thesis using False True by (auto simp: c plan_backfill(1) image_iff)
  next
    case nw: False
    obtain x where "frame_data (plan_movement st n c d thr) = frame_data st @ [(n, x, False)]"
      using plan_normal(1) [OF False nw] by blast
    then show ?thesis by auto
  qed
qed

lemma first_pass_append:
  "first_pass st n (xs @ ys) = first_pass (first_pass st n xs) (n + int (length xs)) ys"
  by (induction xs arbitrary: st n) (auto simp: add.assoc)

lemma first_pass_default_x [simp]: "default_x (first_pass st n xs) = default_x st"
  by (induction xs arbitrary: st n) auto

lemma first_pass_frame_numbers:
  assumes "\<forall>r \<in> set (frame_data st). fst r < n"
  shows "\<forall>r \<in> set (frame_data (first_pass st n xs)). fst r < n + int (length xs)"
  using assms
proof (induction xs arbitrary: st n)
  case Nil
  then show ?case by simp
next
  case (Cons inp xs)
  obtain c d where inp: "inp = (c, d)" by (cases inp)
  have "\<forall>r \<in> set (frame_data (plan_movement st n c d 3000)). fst r < n + 1"
  proof
    fix r assume "r \<in> set (frame_data (plan_movement st n c d 3000))"
    then have "fst r \<in> insert n (set (map fst (frame_data st)))"
      using plan_frame_numbers [of st n c d 3000] by auto
    then show "fst r < n + 1" using Cons.prems by auto
  qed
  from Cons.IH [OF this] show ?case by (simp add: inp add.assoc)
qed


lemma backfill_old: "fst r < k \<Longrightarrow> backfill k x r = r"
  by (cases r) (simp add: backfill_def)

lemma backfill_marker: "backfill k x (k, v, True) = (k, v, True)"
  by (simp add: backfill_def)

lemma backfill_new: "k \<le> n \<Longrightarrow> backfill k x (n, v, False) = (n, x, False)"
  by (simp add: backfill_def)

text \<open>
  C7. After any ten frames 0 to 9, a scene cut at frame 10, four frames 11 to 14 without a
  candidate and without a cut, and at frame 15 the first candidate, at \<open>x = 0.7\<close>: the
  records of the frames 11 to 14 hold 0.7, the record of frame 10 is still the scene-change
  marker at 0.5, and the records of the earlier frames are as they were.
\<close>

theorem delayed_detection_backfill:
  assumes "length pre = 10" "d10 > 3000"
    and "d11 \<le> 3000" "d12 \<le> 3000" "d13 \<le> 3000" "d14 \<le> 3000" "d15 \<le> 3000"
  shows "frame_data (first_pass (init_planner fps_in) 0
           (pre @ [(c10, d10), (None, d11), (None, d12), (None, d13), (None, d14),
                   (Some (cid, 7/10, cy, conf), d15)]))
         = frame_data (first_pass (init_planner fps_in) 0 pre)
             @ [(10, 1/2, True), (11, 7/10, False), (12, 7/10, False), (13, 7/10, False),
                (14, 7/10, False)]"
proof -
  define st9 where "st9 = first_pass (init_planner fps_in) 0 pre"
  define st10 where "st10 = plan_movement st9 10 c10 d10 3000"
  define st11 where "st11 = plan_movement st10 11 None d11 3000"
  define st12 where "st12 = plan_movement st11 12 None d12 3000"
  define st13 where "st13 = plan_movement st12 13 None d13 3000"
  define st14 where "st14 = plan_movement st13 14 None d14 3000"
  define st15 where "st15 = plan_movement st14 15 (Some (cid, 7/10, cy, conf)) d15 3000"
  have nums: "\<forall>r \<in> set (frame_data st9). fst r < 10"
    using first_pass_frame_numbers [of "init_planner fps_in" 0 pre] assms(1)
    by (simp add: st9_def init_planner_def)
  have dx: "default_x st9 = 1/2"
    by (simp add: st9_def init_planner_def DEFAULT_CENTER_def)
  have f10: "frame_data st10 = frame_data st9 @ [(10, 1/2, True)]"
    and s10: "current_scene_start st10 = 10" and w10: "waiting_for_detection st10"
    using plan_cut [OF assms(2), of st9 10 c10] dx by (simp_all add: st10_def)
  have n: "\<not> d11 > 3000" "\<not> d12 > 3000" "\<not> d13 > 3000" "\<not> d14 > 3000" "\<not> d15 > 3000"
    using assms(3-7) by simp_all
  have none: "\<not> (waiting_for_detection st \<and> (None :: cluster option) \<noteq> None)" for st by simp
  obtain x11 where f11: "frame_data st11 = frame_data st10 @ [(11, x11, False)]"
    using plan_normal(1) [OF n(1) none] unfolding st11_def by blast
  have s11: "current_scene_start st11 = 10" and w11: "waiting_for_detection st11"
    using plan_normal(2,3) [OF n(1) none, of st10 11] s10 w10 by (simp_all add: st11_def)
  obtain x12 where f12: "frame_data st12 = frame_data st11 @ [(12, x12, False)]"
    using plan_normal(1) [OF n(2) none] unfolding st12_def by blast
  have s12: "current_scene_start st12 = 10" and w12: "waiting_for_detection st12"
    using plan_normal(2,3) [OF n(2) none, of st11 12] s11 w11 by (simp_all add: st12_def)
  obtain x13 where f13: "frame_data st13 = frame_data st12 @ [(13, x13, False)]"
    using plan_normal(1) [OF n(3) none] unfolding st13_def by blast
  have s13: "current_scene_start st13 = 10" and w13: "waiting_for_detection st13"
    using plan_normal(2,3) [OF n(3) none, of st12 13] s12 w12 by (simp_all add: st13_def)
  obtain x14 where f14: "frame_data st14 = frame_data st13 @ [(14, x14, False)]"
    using plan_normal(1) [OF n(4) none] unfolding st14_def by blast
  have s14: "current_scene_start st14 = 10" and w14: "waiting_for_detection st14"
    using plan_normal(2,3) [OF n(4) none, of st13 14] s13 w13 by (simp_all add: st14_def)
  have f15: "frame_data st15 = map (backfill 10 (7/10)) (frame_data st14)"
    using plan_backfill(1) [OF n(5) w14, of 15 cid "7/10" cy conf] s14 by (simp add: st15_def)
  have old: "map (backfill 10 (7/10)) (frame_data st9) = frame_data st9"
    using nums by (intro map_idI backfill_old) auto
  have res: "frame_data st15 = frame_data st9
      @ [(10, 1/2, True), (11, 7/10, False), (12, 7/10, False), (13, 7/10, False), (14, 7/10, False)]"
    by (simp add: f15 f14 f13 f12 f11 f10 old backfill_marker backfill_new)
  have run: "first_pass (init_planner fps_in) 0
           (pre @ [(c10, d10), (None, d11), (None, d12), (None, d13), (None, d14),
                   (Some (cid, 7/10, cy, conf), d15)]) = st15"
    by (simp add: first_pass_append assms(1) st15_def st14_def st13_def st12_def st11_def
        st10_def st9_def)
  show ?thesis unfolding run res st9_def ..
qed

text \<open>
  The instance: ten frames that follow a candidate at 0.2, at 30 frames per second, then the
  cut, the gap and the candidate at 0.7.
\<close>

theorem delayed_detection_backfill_witness:
  "length (replicate 10 (Some (0 :: int, 1/5 :: real, 1/2 :: real, 9/10 :: real), 0 :: real)) = 10
   \<and> (5000 :: real) > 3000 \<and> (0 :: real) \<le> 3000
   \<and> frame_data (first_pass (init_planner 30) 0
           (replicate 10 (Some (0, 1/5, 1/2, 9/10), 0)
              @ [(None, 5000), (None, 0), (None, 0), (None, 0), (None, 0),
                 (Some (0, 7/10, 1/2, 9/10), 0)]))
     = frame_data (first_pass (init_planner 30) 0 (replicate 10 (Some (0, 1/5, 1/2, 9/10), 0)))
         @ [(10, 1/2, True), (11, 7/10, False), (12, 7/10, False), (13, 7/10, False),
            (14, 7/10, False)]
   \<and> map fst (frame_data (first_pass (init_planner 30) 0 (replicate 10 (Some (0, 1/5, 1/2, 9/10), 0))))
     = [0, 1, 2, 3, 4, 5, 6, 7, 8, 9]"
proof -
  have a: "length (replicate 10 (Some (0 :: int, 1/5 :: real, 1/2 :: real, 9/10 :: real), 0 :: real)) = 10"
    by simp
  have b: "(5000 :: real) > 3000" and c: "(0 :: real) \<le> 3000" by simp_all
  have d: "map fst (frame_data (first_pass (init_planner 30) 0 (replicate 10 (Some (0, 1/5, 1/2, 9/10), 0))))
     = [0, 1, 2, 3, 4, 5, 6, 7, 8, 9]"
    by (simp add: eval_nat_numeral init_planner_def plan_movement_def DEFAULT_CENTER_def py_int_def
        stability_def centering_def Let_def)
  show ?thesis
    using a b c d delayed_detection_backfill [OF a b c c c c c, of 30 None 0 "1/2" "9/10"]
    by blast
qed

section \<open>The smoothing pass\<close>

lemma list_assign_Inr:
  assumes "list_assign xs i v = Inr ys"
  shows "length ys = length xs"
    and "\<And>f. f < length xs \<Longrightarrow> int f \<noteq> py_index (length xs) i \<Longrightarrow> ys ! f = xs ! f"
  using assms by (auto simp: list_assign_def Let_def split: if_splits)

lemma smooth_loop_untouched:
  assumes "smooth_loop ba dt ps i frames last_x centers = Inr cs"
  shows "length cs = length centers
       \<and> (\<forall>f < length centers.
             int f \<notin> py_index (length centers) ` set (take (length ps - i) frames)
             \<longrightarrow> cs ! f = centers ! f)"
  using assms
proof (induction frames arbitrary: i last_x centers)
  case Nil
  then show ?case by simp
next
  case (Cons frame frames)
  show ?case
  proof (cases "i \<ge> length ps")
    case True
    then show ?thesis using Cons.prems by simp
  next
    case False
    have "\<exists>v. smooth_loop ba dt ps i (frame # frames) last_x centers =
        (case list_assign centers frame v of
           Inl e \<Rightarrow> Inl e
         | Inr c' \<Rightarrow> smooth_loop ba dt ps (i + 1) frames v c')"
      by (subst smooth_loop.simps, simp only: False if_False Let_def, rule exI, rule refl)
    then obtain v where step: "smooth_loop ba dt ps i (frame # frames) last_x centers =
        (case list_assign centers frame v of
           Inl e \<Rightarrow> Inl e
         | Inr c' \<Rightarrow> smooth_loop ba dt ps (i + 1) frames v c')"
      by blast
    obtain c' where c': "list_assign centers frame v = Inr c'"
      and rest: "smooth_loop ba dt ps (i + 1) frames v c' = Inr cs"
      using Cons.prems unfolding step by (auto split: sum.splits)
    have len: "length c' = length centers" using list_assign_Inr(1) [OF c'] .
    have ih: "length cs = length c'
       \<and> (\<forall>f < length c'.
             int f \<notin> py_index (length c') ` set (take (length ps - (i + 1)) frames)
             \<longrightarrow> cs ! f = c' ! f)"
      using Cons.IH [OF rest] .
    have tk: "take (length ps - i) (frame # frames) = frame # take (length ps - (i + 1)) frames"
    proof -
      have "length ps - i = Suc (length ps - (i + 1))" using False by simp
      then show ?thesis by (simp only: take_Suc_Cons)
    qed
    show ?thesis
    proof (intro conjI allI impI)
      show "length cs = length centers" using ih len by simp
    next
      fix f assume f: "f < length centers"
        and nw: "int f \<notin> py_index (length centers) ` set (take (length ps - i) (frame # frames))"
      have ne: "int f \<noteq> py_index (length centers) frame" using nw unfolding tk by auto
      have nr: "int f \<notin> py_index (length c') ` set (take (length ps - (i + 1)) frames)"
        using nw unfolding tk len by auto
      have "cs ! f = c' ! f" using ih f nr len by simp
      also have "c' ! f = centers ! f" using list_assign_Inr(2) [OF c' f ne] .
      finally show "cs ! f = centers ! f" .
    qed
  qed
qed

lemma smooth_segments_untouched:
  assumes "smooth_segments ba dt segs centers = Inr cs"
  shows "length cs = length centers
       \<and> (\<forall>f < length centers.
             (\<forall>seg \<in> set segs. int f \<notin> py_index (length centers) ` set (written_frames seg))
             \<longrightarrow> cs ! f = centers ! f)"
  using assms
proof (induction segs arbitrary: centers)
  case Nil
  then show ?case by simp
next
  case (Cons seg segs)
  obtain start_frame end_frame positions where seg: "seg = (start_frame, end_frame, positions)"
    by (cases seg) auto
  obtain p0 ps' where pos: "positions = p0 # ps'"
    using Cons.prems unfolding seg by (cases positions) auto
  obtain c' where c': "smooth_loop ba dt positions 0 [start_frame..end_frame] p0 centers = Inr c'"
    and rest: "smooth_segments ba dt segs c' = Inr cs"
    using Cons.prems unfolding seg pos by (auto split: sum.splits)
  have l1: "length c' = length centers
       \<and> (\<forall>f < length centers.
             int f \<notin> py_index (length centers) ` set (take (length positions - 0) [start_frame..end_frame])
             \<longrightarrow> c' ! f = centers ! f)"
    using smooth_loop_untouched [OF c'] .
  have wf: "written_frames seg = take (length positions - 0) [start_frame..end_frame]"
    by (simp add: written_frames_def seg)
  have ih: "length cs = length c'
       \<and> (\<forall>f < length c'.
             (\<forall>seg \<in> set segs. int f \<notin> py_index (length c') ` set (written_frames seg))
             \<longrightarrow> cs ! f = c' ! f)"
    using Cons.IH [OF rest] .
  show ?case
  proof (intro conjI allI impI)
    show "length cs = length centers" using ih l1 by simp
  next
    fix f assume f: "f < length centers"
      and nw: "\<forall>seg \<in> set (seg # segs). int f \<notin> py_index (length centers) ` set (written_frames seg)"
    have a: "int f \<notin> py_index (length centers) ` set (take (length positions - 0) [start_frame..end_frame])"
      using nw wf by simp
    have b: "\<forall>seg \<in> set segs. int f \<notin> py_index (length c') ` set (written_frames seg)"
      using nw l1 by simp
    have "cs ! f = c' ! f" using ih f b l1 by simp
    also have "c' ! f = centers ! f" using l1 f a by blast
    finally show "cs ! f = centers ! f" .
  qed
qed

text \<open>
  C4, as the code has it. The inner loop stops at the end of the raw positions, so the
  frames of a segment's range beyond them are not assigned by that segment: they are not
  among its \<open>written_frames\<close>. Whenever \<open>interpolate_and_smooth\<close> returns, its result
  has one center per frame of \<open>total_frames\<close>, and every frame that no segment's loop
  assigns, whether it lies beyond the raw positions of its segment or in no segment at
  all, holds the default center.
\<close>

theorem unwritten_frames_keep_default:
  assumes "interpolate_and_smooth st total_frames base_alpha delta_threshold = Inr centers"
  shows "length centers = nat total_frames
       \<and> (\<forall>f < nat total_frames.
             (\<forall>seg \<in> set (get_scene_segments st).
                int f \<notin> py_index (nat total_frames) ` set (written_frames seg))
             \<longrightarrow> centers ! f = default_x st)"
  using smooth_segments_untouched [OF assms [unfolded interpolate_and_smooth_def]]
  by simp

text \<open>
  The instance, and the input at which the claim as written fails. Four frames at 30 frames
  per second: nothing at frame 0, a scene cut at frame 1, and a candidate at \<open>x = 0.9\<close> at
  the frames 2 and 3. The delayed detection at frame 2 leaves no record, so the second
  segment is \<open>(1, 3, [0.5, 0.53])\<close>: three frames, two raw positions. Its loop assigns
  the frames 1 and 2; frame 3 lies beyond the raw positions and holds the default 0.5.
\<close>

theorem unwritten_frames_keep_default_witness:
  "interpolate_and_smooth (first_pass (init_planner 30) 0
     [(None, 0), (None, 5000), (Some (0, 9/10, 1/2, 9/10), 0), (Some (0, 9/10, 1/2, 9/10), 0)])
       4 (1/10) (15/1000)
     = Inr [1/2, 1/2, 50009/100000, 1/2]
   \<and> get_scene_segments (first_pass (init_planner 30) 0
     [(None, 0), (None, 5000), (Some (0, 9/10, 1/2, 9/10), 0), (Some (0, 9/10, 1/2, 9/10), 0)])
     = [(0, 0, [1/2]), (1, 3, [1/2, 53/100])]
   \<and> written_frames (0, 0, [1/2]) = [0]
   \<and> written_frames (1, 3, [1/2, 53/100]) = [1, 2]
   \<and> [1/2, 1/2, 50009/100000, 1/2 :: real] ! 3
       = default_x (first_pass (init_planner 30) 0
           [(None, 0), (None, 5000), (Some (0, 9/10, 1/2, 9/10), 0), (Some (0, 9/10, 1/2, 9/10), 0)])"
proof -
  let ?st = "first_pass (init_planner 30) 0
     [(None, 0), (None, 5000), (Some (0, 9/10, 1/2, 9/10), 0), (Some (0, 9/10, 1/2, 9/10), 0)]"
  have a: "interpolate_and_smooth ?st 4 (1/10) (15/1000) = Inr [1/2, 1/2, 50009/100000, 1/2]"
    by (simp add: interpolate_and_smooth_def get_scene_segments_def
      init_planner_def plan_movement_def DEFAULT_CENTER_def py_int_def backfill_def
      stability_def centering_def Let_def list_assign_def py_index_def upto_rec1 eval_nat_numeral
      del: stability_fields centering_fields plan_default_x first_pass_default_x)
  have b: "(3 :: nat) < nat 4" by simp
  have segs: "get_scene_segments ?st = [(0, 0, [1/2]), (1, 3, [1/2, 53/100])]"
    by (simp add: get_scene_segments_def
      init_planner_def plan_movement_def DEFAULT_CENTER_def py_int_def backfill_def
      stability_def centering_def Let_def
      del: stability_fields centering_fields plan_default_x first_pass_default_x)
  have w1: "written_frames (0, 0, [1/2]) = [0]"
    by (simp add: written_frames_def upto_rec1)
  have w2: "written_frames (1, 3, [1/2, 53/100]) = [1, 2]"
    by (simp add: written_frames_def upto_rec1)
  have c: "\<forall>seg \<in> set (get_scene_segments ?st). int 3 \<notin> py_index (nat 4) ` set (written_frames seg)"
    unfolding segs by (auto simp: w1 w2 py_index_def)
  have h: "\<forall>f < nat 4. (\<forall>seg \<in> set (get_scene_segments ?st).
             int f \<notin> py_index (nat 4) ` set (written_frames seg))
         \<longrightarrow> [1/2, 1/2, 50009/100000, 1/2 :: real] ! f = default_x ?st"
    using unwritten_frames_keep_default [OF a] by (rule conjunct2)
  have d: "[1/2, 1/2, 50009/100000, 1/2 :: real] ! 3 = default_x ?st"
    by (rule h [rule_format, OF b c [rule_format]])
  show ?thesis by (intro conjI a segs w1 w2 d)
qed

text \<open>
  The last smoothed value of that segment is 0.50009, at frame 2. Frame 3 is not left at
  it.
\<close>

theorem trailing_frame_left_at_default:
  "get_scene_segments (first_pass (init_planner 30) 0
     [(None, 0), (None, 5000), (Some (0, 9/10, 1/2, 9/10), 0), (Some (0, 9/10, 1/2, 9/10), 0)])
     = [(0, 0, [1/2]), (1, 3, [1/2, 53/100])]
   \<and> interpolate_and_smooth (first_pass (init_planner 30) 0
     [(None, 0), (None, 5000), (Some (0, 9/10, 1/2, 9/10), 0), (Some (0, 9/10, 1/2, 9/10), 0)])
       4 (1/10) (15/1000)
     = Inr [1/2, 1/2, 50009/100000, 1/2]"
  by (simp add: interpolate_and_smooth_def get_scene_segments_def
      init_planner_def plan_movement_def DEFAULT_CENTER_def py_int_def backfill_def
      stability_def centering_def Let_def list_assign_def py_index_def upto_rec1 eval_nat_numeral
      del: stability_fields centering_fields plan_default_x first_pass_default_x)

section \<open>A candidate that does not move\<close>

lemma sum_list_const: "\<forall>h \<in> set hs. h = p \<Longrightarrow> sum_list hs = real (length hs) * (p :: real)"
  by (induction hs) (simp_all add: algebra_simps)

lemma mean_const:
  assumes "\<forall>h \<in> set hs. h = (p :: real)" "hs \<noteq> []"
  shows "sum_list hs / real (length hs) = p"
  using assms by (simp add: sum_list_const)

lemma stability_history:
  assumes "\<forall>h \<in> set (position_history st). h = p"
  shows "\<forall>h \<in> set (position_history (stability st d)). h = p"
  using assms by (simp add: stability_def Let_def)

lemma centering_const:
  assumes "\<forall>h \<in> set (position_history st). h = p"
  shows "snd (centering st p) = p"
    and "\<forall>h \<in> set (position_history (fst (centering st p))). h = p"
proof -
  define h1 where "h1 = position_history st @ [p]"
  define h2 where "h2 = (if int (length h1) > history_size st then tl h1 else h1)"
  have a1: "\<forall>h \<in> set h1. h = p" using assms by (auto simp: h1_def)
  have "set h2 \<subseteq> set h1" unfolding h2_def by (cases h1) auto
  then have a2: "\<forall>h \<in> set h2. h = p" using a1 by blast
  have blend: "p * (1 - w) + p * w = p" for w :: real by (simp add: algebra_simps)
  show "snd (centering st p) = p"
  proof (cases "is_centering st \<and> length h2 > 1")
    case True
    then have "h2 \<noteq> []" by auto
    then have "sum_list h2 / real (length h2) = p" using mean_const [OF a2] by simp
    then show ?thesis
      using True by (simp add: centering_def Let_def h1_def [symmetric] h2_def [symmetric] blend)
  next
    case False
    then show ?thesis
      by (auto simp: centering_def Let_def h1_def [symmetric] h2_def [symmetric])
  qed
  show "\<forall>h \<in> set (position_history (fst (centering st p))). h = p"
    using a2 assms by (simp add: centering_def Let_def h1_def [symmetric] h2_def [symmetric])
qed

lemma plan_constant:
  assumes "\<not> d > thr" "\<not> waiting_for_detection st"
    and "frame_data st = map (\<lambda>i. (int i, p, False)) [0..<k]"
    and "\<forall>h \<in> set (position_history st). h = p" "0 \<le> max_movement_per_frame st"
  shows "frame_data (plan_movement st (int k) (Some (cid, p, y, conf)) d thr)
           = map (\<lambda>i. (int i, p, False)) [0..<Suc k]
       \<and> \<not> waiting_for_detection (plan_movement st (int k) (Some (cid, p, y, conf)) d thr)
       \<and> (\<forall>h \<in> set (position_history (plan_movement st (int k) (Some (cid, p, y, conf)) d thr)). h = p)
       \<and> max_movement_per_frame (plan_movement st (int k) (Some (cid, p, y, conf)) d thr)
           = max_movement_per_frame st"
proof (cases k)
  case 0
  then have e: "frame_data st = []" using assms(3) by simp
  show ?thesis
    using assms(1,2,4) e 0 by (simp add: plan_movement_def)
next
  case (Suc j)
  have ne: "frame_data st \<noteq> []" using assms(3) Suc by simp
  have lst: "last (frame_data st) = (int j, p, False)" using assms(3) Suc by simp
  have h1: "\<forall>h \<in> set (position_history (stability st 0)). h = p"
    using stability_history [OF assms(4)] .
  have eq: "plan_movement st (int k) (Some (cid, p, y, conf)) d thr
      = (fst (centering (stability st 0) p))
        \<lparr>frame_data := frame_data (fst (centering (stability st 0) p))
            @ [(int k, snd (centering (stability st 0) p), False)]\<rparr>"
    using assms(1,2,5) ne lst by (simp add: plan_movement_def Let_def)
  show ?thesis
    unfolding eq using centering_const [OF h1] assms(2,3) by simp
qed

lemma first_pass_constant:
  assumes "\<forall>inp \<in> set inputs. snd inp \<le> 3000 \<and> (case fst inp of None \<Rightarrow> False | Some c \<Rightarrow> fst (snd c) = p)"
    and "\<not> waiting_for_detection st"
    and "frame_data st = map (\<lambda>i. (int i, p, False)) [0..<k]"
    and "\<forall>h \<in> set (position_history st). h = p" "0 \<le> max_movement_per_frame st"
  shows "frame_data (first_pass st (int k) inputs)
           = map (\<lambda>i. (int i, p, False)) [0..<k + length inputs]"
  using assms
proof (induction inputs arbitrary: st k)
  case Nil
  then show ?case by simp
next
  case (Cons inp inputs)
  obtain c d where inp: "inp = (c, d)" by (cases inp)
  have d: "\<not> d > 3000" using Cons.prems(1) unfolding inp by simp
  obtain cl where cl: "c = Some cl" "fst (snd cl) = p"
    using Cons.prems(1) unfolding inp by (cases c) auto
  obtain cid y conf where c: "c = Some (cid, p, y, conf)"
    using cl by (cases cl) auto
  let ?st' = "plan_movement st (int k) (Some (cid, p, y, conf)) d 3000"
  have pc: "frame_data ?st' = map (\<lambda>i. (int i, p, False)) [0..<Suc k]"
    "\<not> waiting_for_detection ?st'" "\<forall>h \<in> set (position_history ?st'). h = p"
    "max_movement_per_frame ?st' = max_movement_per_frame st"
    using plan_constant [OF d Cons.prems(2,3,4,5), of cid y conf] by blast+
  have mm: "0 \<le> max_movement_per_frame ?st'" using pc(4) Cons.prems(5) by simp
  have rest: "\<forall>inp \<in> set inputs. snd inp \<le> 3000 \<and> (case fst inp of None \<Rightarrow> False | Some c \<Rightarrow> fst (snd c) = p)"
    using Cons.prems(1) by simp
  have "frame_data (first_pass ?st' (int (Suc k)) inputs)
           = map (\<lambda>i. (int i, p, False)) [0..<Suc k + length inputs]"
    using Cons.IH [OF rest pc(2) pc(1) pc(3) mm] .
  then show ?case by (simp add: inp c add.commute)
qed

lemma segments_loop_no_cut:
  assumes "\<forall>r \<in> set fd. \<not> snd (snd r)"
  shows "segments_loop i s cur segs fd = (s, cur @ map (\<lambda>r. fst (snd r)) fd, segs)"
  using assms by (induction fd arbitrary: i cur) auto

lemma segments_constant:
  assumes "frame_data st = map (\<lambda>i. (int i, p, False)) [0..<n]"
  shows "get_scene_segments st = (if n = 0 then [] else [(0, int n - 1, replicate n p)])"
proof -
  have nc: "\<forall>r \<in> set (frame_data st). \<not> snd (snd r)" unfolding assms by simp
  have m: "map (\<lambda>r. fst (snd r)) (frame_data st) = replicate n p"
    unfolding assms by (simp add: map_replicate_const comp_def)
  have l: "n \<noteq> 0 \<Longrightarrow> fst (last (frame_data st)) = int n - 1"
    unfolding assms by (cases n) auto
  show ?thesis
    unfolding get_scene_segments_def segments_loop_no_cut [OF nc] m using l by simp
qed

lemma smooth_constant:
  assumes "i \<le> n" "n - i \<le> length rest"
  shows "smooth_loop ba dt (replicate n p) i [int i..int n - 1] p (replicate i p @ rest)
           = Inr (replicate n p @ drop (n - i) rest)"
  using assms
proof (induction "n - i" arbitrary: i rest)
  case 0
  then have "i = n" by simp
  then show ?case by simp
next
  case (Suc j)
  have lt: "i < n" using Suc.hyps(2) by simp
  obtain r rest' where rest: "rest = r # rest'" using Suc.prems(2) Suc.hyps(2) by (cases rest) auto
  have fr: "[int i..int n - 1] = int i # [int (Suc i)..int n - 1]"
    using lt by (subst upto_rec1) (simp_all add: add.commute)
  have asg: "list_assign (replicate i p @ rest) (int i) p = Inr (replicate (Suc i) p @ rest')"
  proof -
    have "(replicate i p @ r # rest')[length (replicate i p) := p] = replicate i p @ p # rest'"
      by (rule list_update_length)
    then have "(replicate i p @ r # rest')[i := p] = replicate (Suc i) p @ rest'"
      by (simp add: replicate_app_Cons_same)
    then show ?thesis
      unfolding rest by (simp add: list_assign_def py_index_def Let_def)
  qed
  have sm: "(let target_x = replicate n p ! i; delta = target_x - p in
             (if \<bar>delta\<bar> < dt then p
              else
                let distance_factor = min (\<bar>delta\<bar> * 2) 1;
                    deceleration_alpha0 = ba * distance_factor;
                    deceleration_alpha =
                      (if \<bar>delta\<bar> < 1 / 10 then deceleration_alpha0 * (1 / 2)
                       else deceleration_alpha0)
                in p + deceleration_alpha * delta)) = p"
    using lt by (simp add: Let_def)
  have ih: "smooth_loop ba dt (replicate n p) (Suc i) [int (Suc i)..int n - 1] p (replicate (Suc i) p @ rest')
           = Inr (replicate n p @ drop (n - Suc i) rest')"
    using Suc.hyps(2) Suc.prems lt by (intro Suc.hyps(1)) (simp_all add: rest)
  have dr: "drop (n - i) rest = drop (n - Suc i) rest'"
    using lt unfolding rest by (simp add: drop_Cons')
  have "smooth_loop ba dt (replicate n p) i (int i # [int (Suc i)..int n - 1]) p (replicate i p @ rest)
      = smooth_loop ba dt (replicate n p) (Suc i) [int (Suc i)..int n - 1] p (replicate (Suc i) p @ rest')"
    using lt sm asg by (simp add: Let_def)
  then show ?case unfolding fr dr ih .
qed


text \<open>
  C5. The frames read all have a frame difference that is not above the scene-change
  threshold (so also every difference below it) and a best cluster at the same \<open>x = p\<close>.
  Then the two passes of \<open>process_video\<close> return, and the center of every frame read is
  \<open>p\<close> itself, from frame 0 on: the distance to \<open>p\<close> is zero after no frame at all, within
  any bound proportional to \<open>1 / base_alpha\<close>, and no center lies beyond \<open>p\<close>. The frames
  of \<open>total_frames\<close> that were not read keep the default center.
\<close>

theorem constant_candidate_centers:
  assumes "\<forall>inp \<in> set inputs. snd inp \<le> 3000 \<and> (case fst inp of None \<Rightarrow> False | Some c \<Rightarrow> fst (snd c) = p)"
    and "int (length inputs) \<le> total_frames"
  shows "planned_centers fps_in inputs total_frames
           = Inr (replicate (length inputs) p
                  @ replicate (nat total_frames - length inputs) DEFAULT_CENTER)"
proof -
  define st where "st = first_pass (init_planner fps_in) 0 inputs"
  define n where "n = length inputs"
  have fd: "frame_data st = map (\<lambda>i. (int i, p, False)) [0..<n]"
    using first_pass_constant [OF assms(1), of "init_planner fps_in" 0]
    by (simp add: init_planner_def st_def n_def)
  have dx: "default_x st = DEFAULT_CENTER" by (simp add: st_def init_planner_def)
  have segs: "get_scene_segments st = (if n = 0 then [] else [(0, int n - 1, replicate n p)])"
    using segments_constant [OF fd] .
  have le: "n \<le> nat total_frames" using assms(2) by (simp add: n_def)
  show ?thesis
  proof (cases n)
    case 0
    then show ?thesis
      using segs dx by (simp add: planned_centers_def interpolate_and_smooth_def
          st_def [symmetric] n_def [symmetric])
  next
    case (Suc m)
    have sl: "smooth_loop (1 / 10) (15 / 1000) (replicate n p) 0 [int 0..int n - 1] p
                (replicate 0 p @ replicate (nat total_frames) DEFAULT_CENTER)
              = Inr (replicate n p @ drop (n - 0) (replicate (nat total_frames) DEFAULT_CENTER))"
      by (rule smooth_constant) (simp_all add: le)
    have sl': "smooth_loop (1 / 10) (15 / 1000) (p # replicate m p) 0 [0..int m] p
                (replicate (nat total_frames) DEFAULT_CENTER)
              = Inr (p # replicate m p @ replicate (nat total_frames - Suc m) DEFAULT_CENTER)"
      using sl unfolding Suc by simp
    show ?thesis
      using segs dx sl' Suc
      by (simp add: planned_centers_def interpolate_and_smooth_def st_def [symmetric]
          n_def [symmetric])
  qed
qed

text \<open>
  The instance: three frames at \<open>x = 0.7\<close> from two different cluster ids, at 2 frames per
  second, where the centering blend starts at the second frame, and a total of 4 frames.
\<close>

theorem constant_candidate_centers_witness:
  "planned_centers 2 [(Some (0, 7/10, 1/2, 9/10), 0), (Some (1, 7/10, 2/5, 4/5), 100),
                      (Some (0, 7/10, 1/2, 9/10), 2999)] 4
     = Inr [7/10, 7/10, 7/10, 1/2]"
  using constant_candidate_centers
    [of "[(Some (0, 7/10, 1/2, 9/10), 0), (Some (1, 7/10, 2/5, 4/5), 100),
          (Some (0, 7/10, 1/2, 9/10), 2999)]" "7/10" 4 2]
  by (simp add: DEFAULT_CENTER_def eval_nat_numeral)

section \<open>Clustering\<close>

lemma sqrt_less_sq: "0 < t \<Longrightarrow> sqrt x < t \<longleftrightarrow> x < t\<^sup>2"
proof -
  assume t: "0 < t"
  have "sqrt x < sqrt (t\<^sup>2) \<longleftrightarrow> x < t\<^sup>2" by (rule real_sqrt_less_iff)
  then show ?thesis using t by simp
qed

lemma acc_of_single:
  "acc_of [(y, x, c)] = \<lparr>sum_x = x, sum_y = y, count = 1, max_conf = c\<rparr>"
  by (simp add: acc_of_def kp_x_def kp_y_def kp_conf_def)

lemma acc_of_snoc:
  assumes "g \<noteq> []"
  shows "acc_of (g @ [(y, x, c)]) =
     (acc_of g)\<lparr>sum_x := sum_x (acc_of g) + x, sum_y := sum_y (acc_of g) + y,
                count := count (acc_of g) + 1,
                max_conf := (if c > max_conf (acc_of g) then c else max_conf (acc_of g))\<rparr>"
proof -
  have ne: "set (map kp_conf g) \<noteq> {}" using assms by simp
  have "Max (insert c (set (map kp_conf g))) = max c (Max (set (map kp_conf g)))"
    using assms by (intro Max_insert) simp_all
  then have m: "Max (set (map kp_conf (g @ [(y, x, c)])))
       = (if c > Max (set (map kp_conf g)) then c else Max (set (map kp_conf g)))"
    by (simp add: kp_conf_def max_def)
  show ?thesis
    unfolding acc_of_def m by (simp add: kp_x_def kp_y_def)
qed

lemma near_acc:
  "(sqrt ((x - sum_x (acc_of g) / real_of_int (count (acc_of g)))\<^sup>2
        + (y - sum_y (acc_of g) / real_of_int (count (acc_of g)))\<^sup>2) < threshold)
   = group_near threshold (y, x, c) g"
  by (simp add: group_near_def acc_of_def mean_def kp_x_def kp_y_def)

lemma merge_into_groups:
  assumes "\<forall>g \<in> set gs. g \<noteq> []"
  shows "(case merge_into threshold (y, x, c) (map acc_of gs) of
            Some cs \<Rightarrow> cs
          | None \<Rightarrow> map acc_of gs @ [\<lparr>sum_x = x, sum_y = y, count = 1, max_conf = c\<rparr>])
         = map acc_of (first_fit threshold gs (y, x, c))
       \<and> (merge_into threshold (y, x, c) (map acc_of gs) = None
            \<longrightarrow> first_fit threshold gs (y, x, c) = gs @ [[(y, x, c)]])
       \<and> (\<forall>cs. merge_into threshold (y, x, c) (map acc_of gs) = Some cs
            \<longrightarrow> cs = map acc_of (first_fit threshold gs (y, x, c)))"
  using assms
proof (induction gs)
  case Nil
  show ?case by (simp add: acc_of_single)
next
  case (Cons g gs)
  have ne: "g \<noteq> []" and rest: "\<forall>g \<in> set gs. g \<noteq> []" using Cons.prems by simp_all
  note ih = Cons.IH [OF rest]
  show ?case
  proof (cases "group_near threshold (y, x, c) g")
    case True
    then show ?thesis
      using near_acc [of x g y threshold c] acc_of_snoc [OF ne, of y x c]
      by (simp add: Let_def)
  next
    case False
    then show ?thesis
      using near_acc [of x g y threshold c] ih
      by (auto simp: Let_def split: option.splits)
  qed
qed

lemma first_fit_nonempty:
  "\<forall>g \<in> set gs. g \<noteq> [] \<Longrightarrow> \<forall>g \<in> set (first_fit threshold gs kp). g \<noteq> []"
  by (induction gs) auto

lemma cluster_loop_groups:
  assumes "\<forall>g \<in> set gs. g \<noteq> []"
  shows "cluster_loop threshold (map acc_of gs) people
         = map acc_of (foldl (first_fit threshold) gs (map snd people))"
  using assms
proof (induction people arbitrary: gs)
  case Nil
  show ?case by simp
next
  case (Cons person people)
  obtain pid y x c where person: "person = (pid, y, x, c)" by (cases person) auto
  have step: "(case merge_into threshold (y, x, c) (map acc_of gs) of
            Some cs \<Rightarrow> cs
          | None \<Rightarrow> map acc_of gs @ [\<lparr>sum_x = x, sum_y = y, count = 1, max_conf = c\<rparr>])
         = map acc_of (first_fit threshold gs (y, x, c))"
    using merge_into_groups [OF Cons.prems] by blast
  have ne: "\<forall>g \<in> set (first_fit threshold gs (y, x, c)). g \<noteq> []"
    using first_fit_nonempty [OF Cons.prems] .
  show ?case
    unfolding person by (simp only: cluster_loop.simps step Cons.IH [OF ne] list.map foldl_Cons snd_conv)
qed

lemma merged_person_acc: "merged_person (i, acc_of g) = group_cluster (i, g)"
  by (simp add: merged_person_def group_cluster_def acc_of_def mean_def)

text \<open>
  C9, as the code has it. \<open>cluster_people\<close> returns the first-fit grouping: each
  detection, in insertion order, joins the first cluster in creation order whose centroid
  is at a distance below the threshold, which need not be the nearest one, and starts a
  new cluster when there is none; a cluster is reported with its index, the mean of its
  members' positions and the largest of their confidences. An empty input gives an empty
  output.
\<close>

theorem cluster_people_first_fit:
  "cluster_people people threshold
     = map group_cluster (enumerate 0 (first_fit_groups threshold people))
   \<and> cluster_people [] threshold = []"
proof -
  have loop: "cluster_loop threshold [] people = map acc_of (first_fit_groups threshold people)"
    using cluster_loop_groups [of "[]" threshold people] by (simp add: first_fit_groups_def)
  have "map merged_person (enumerate 0 (map acc_of gs)) = map group_cluster (enumerate 0 gs)" for gs
    by (simp add: enumerate_eq_zip zip_map2 merged_person_acc case_prod_beta)
  then show ?thesis
    by (simp add: cluster_people_def loop)
qed

text \<open>
  Three detections on the line \<open>y = 0\<close>, at \<open>x = 0\<close>, \<open>0.06\<close> and \<open>0.04\<close>. The first
  two start a cluster each. The third is at 0.04 from the first centroid and at 0.02 from
  the second, both below 0.05: it is merged into the first cluster, whose mean becomes
  0.02, and not into the nearest.
\<close>

theorem cluster_people_first_not_nearest:
  "cluster_people [(0, 0, 0, 9/10), (1, 0, 6/100, 8/10), (2, 0, 4/100, 7/10)] (5/100)
     = [(0, 2/100, 0, 9/10), (1, 6/100, 0, 8/10)]
   \<and> sqrt ((4/100 - 6/100)\<^sup>2 + (0 - 0)\<^sup>2) < sqrt ((4/100 - 0)\<^sup>2 + (0 - 0)\<^sup>2)
   \<and> sqrt ((4/100 - 6/100)\<^sup>2 + (0 - 0)\<^sup>2) < 5/100"
  by (simp add: cluster_people_def merged_person_def sqrt_less_sq enumerate_eq_zip)

end
